theory Spec2Isabelle
  imports Complex_Main
begin

section \<open>Reward shaping: the list implementations of \<open>tests/rewards_tests.py\<close>\<close>

text \<open>
  Python floats are modelled as the reals: every operation below is a sum or a product,
  and the theorems speak about the recurrences the code runs, not about rounding,
  infinities or NaN.  A list index outside the list raises \<open>IndexError\<close>, a failing
  \<open>assert\<close> raises \<open>AssertionError\<close> with its message, and reading an attribute
  an object does not have raises \<open>AttributeError\<close>.
\<close>

datatype error = IndexError | AssertionError string | AttributeError

text \<open>\<open>xs[i]\<close> for a non-negative index.\<close>

definition getitem :: "'a list \<Rightarrow> nat \<Rightarrow> error + 'a" where
  "getitem xs i = (if i < length xs then Inr (xs ! i) else Inl IndexError)"

subsection \<open>\<open>discount_rewards\<close>\<close>

text \<open>
  The body of \<open>for t in reversed(range(length))\<close>, run over the list of indices that
  is still to be visited.  The state is the running return \<open>R\<close> and the list
  \<open>discounted\<close>; \<open>discounted.insert(0, R)\<close> puts \<open>R\<close> in front.
\<close>

fun discount_loop ::
  "real \<Rightarrow> real list \<Rightarrow> bool list \<Rightarrow> nat list \<Rightarrow> real \<times> real list
     \<Rightarrow> error + real \<times> real list" where
  "discount_loop gamma rewards dones [] (R, discounted) = Inr (R, discounted)"
| "discount_loop gamma rewards dones (t # ts) (R, discounted) =
     (case getitem dones t of
        Inl e \<Rightarrow> Inl e
      | Inr d \<Rightarrow>
          (let R1 = (if d then R * 0 else R) in
           case getitem rewards t of
             Inl e \<Rightarrow> Inl e
           | Inr r \<Rightarrow>
               (let R2 = r + gamma * R1 in
                discount_loop gamma rewards dones ts (R2, R2 # discounted))))"

definition discount_rewards ::
  "real \<Rightarrow> real list \<Rightarrow> bool list \<Rightarrow> real \<Rightarrow> error + real list" where
  "discount_rewards gamma rewards dones bootstrap =
     (case discount_loop gamma rewards dones (rev [0..<length rewards]) (bootstrap, []) of
        Inl e \<Rightarrow> Inl e
      | Inr (R, discounted) \<Rightarrow> Inr discounted)"



subsection \<open>\<open>generalized_advantage_estimate\<close>\<close>

text \<open>
  The done flags enter the arithmetic as numbers (\<open>1.0 - dones[i]\<close>): the test passes
  the floats of \<open>dones.view(-1).tolist()\<close>, and a Python \<open>bool\<close> is the integer 0 or 1.
  The loop state is \<open>advantage\<close>, the rolling \<open>next_value\<close> and the list
  \<open>advantages\<close>.
\<close>

fun gae_loop ::
  "real \<Rightarrow> real \<Rightarrow> real list \<Rightarrow> real list \<Rightarrow> real list \<Rightarrow> nat list
     \<Rightarrow> real \<times> real \<times> real list \<Rightarrow> error + real \<times> real \<times> real list" where
  "gae_loop gamma tau rewards dones values [] (advantage, next_value, advantages) =
     Inr (advantage, next_value, advantages)"
| "gae_loop gamma tau rewards dones values (i # is) (advantage, next_value, advantages) =
     (case getitem rewards i of
        Inl e \<Rightarrow> Inl e
      | Inr r \<Rightarrow>
     (case getitem dones i of
        Inl e \<Rightarrow> Inl e
      | Inr d \<Rightarrow>
     (case getitem values i of
        Inl e \<Rightarrow> Inl e
      | Inr v \<Rightarrow>
          (let td_error = r + (1 - d) * gamma * next_value - v;
               advantage1 = advantage * tau * gamma * (1 - d) + td_error
           in gae_loop gamma tau rewards dones values is
                (advantage1, v, advantage1 # advantages)))))"

definition gae_msg :: string where
  "gae_msg = ''GAE needs as many rewards, values and dones.''"

definition generalized_advantage_estimate ::
  "real \<Rightarrow> real \<Rightarrow> real list \<Rightarrow> real list \<Rightarrow> real list \<Rightarrow> real
     \<Rightarrow> error + real list" where
  "generalized_advantage_estimate gamma tau rewards dones values next_value =
     (if \<not> (length values = length rewards \<and> length rewards = length dones)
      then Inl (AssertionError gae_msg)
      else case gae_loop gamma tau rewards dones values (rev [0..<length rewards])
                  (0, next_value, []) of
             Inl e \<Rightarrow> Inl e
           | Inr (advantage, nv, advantages) \<Rightarrow> Inr advantages)"

text \<open>
  The recurrence as the specification words it: \<open>gae_state \<dots> init T t\<close> is the pair
  (\<open>advantage\<close>, \<open>next_value\<close>) once timestep \<open>t\<close> of a window of \<open>T\<close> steps has been
  processed, where \<open>init\<close> is the pair before any step; the operation starts from
  \<open>(0, next_value)\<close> with the caller's bootstrap.
\<close>

function gae_state ::
  "real \<Rightarrow> real \<Rightarrow> real list \<Rightarrow> real list \<Rightarrow> real list \<Rightarrow> real \<times> real \<Rightarrow> nat \<Rightarrow> nat
     \<Rightarrow> real \<times> real" where
  "gae_state gamma tau rewards dones values init T t =
     (if T \<le> t then init
      else (case gae_state gamma tau rewards dones values init T (Suc t) of
              (advantage, next_value) \<Rightarrow>
                (let td_error = rewards ! t + (1 - dones ! t) * gamma * next_value - values ! t
                 in (advantage * tau * gamma * (1 - dones ! t) + td_error, values ! t))))"
  by pat_completeness auto
termination
  by (relation "measure (\<lambda>(gamma, tau, rewards, dones, values, init, T, t). T - t)") auto

declare gae_state.simps [simp del]


section \<open>Episode statistics: \<open>Logger\<close> of \<open>cherry/envs/logger_wrapper.py\<close>\<close>
















section \<open>Theorems about \<open>discount_rewards\<close>\<close>








text \<open>
  Claim C5.  With \<open>gamma = 0.5\<close>, five rewards of 8, only the last transition terminal
  and bootstrap 0, \<open>discount_rewards\<close> returns \<open>[15.5, 15.0, 14.0, 12.0, 8.0]\<close>.
\<close>

theorem discount_rewards_scenario:
  "discount_rewards 0.5 [8, 8, 8, 8, 8] [False, False, False, False, True] 0 =
     Inr [15.5, 15.0, 14.0, 12.0, 8.0]"
  by (simp add: discount_rewards_def getitem_def upt_rec Let_def)










section \<open>Theorems about \<open>generalized_advantage_estimate\<close>\<close>

lemma gae_state_at_end: "gae_state g tau rs ds vs st T T = st"
  by (simp add: gae_state.simps)

lemma gae_state_step:
  "t < T \<Longrightarrow> gae_state g tau rs ds vs st T t =
     (fst (gae_state g tau rs ds vs st T (Suc t)) * tau * g * (1 - ds ! t)
        + (rs ! t + (1 - ds ! t) * g * snd (gae_state g tau rs ds vs st T (Suc t)) - vs ! t),
      vs ! t)"
  by (subst gae_state.simps) (simp add: Let_def split: prod.split)

lemma gae_state_shift:
  "t \<le> n \<Longrightarrow>
   gae_state g tau rs ds vs (a, nv) (Suc n) t =
   gae_state g tau rs ds vs
     (a * tau * g * (1 - ds ! n) + (rs ! n + (1 - ds ! n) * g * nv - vs ! n), vs ! n) n t"
proof (induction "n - t" arbitrary: t)
  case 0
  then have "t = n" by simp
  then show ?case
    by (simp add: gae_state_at_end gae_state_step)
next
  case (Suc k)
  then have lt: "t < n" and le: "Suc t \<le> n" and k: "k = n - Suc t" by simp_all
  from Suc.hyps(1) [OF k le] lt show ?case
    by (simp add: gae_state_step)
qed

lemma gae_loop_rev_upt:
  "n \<le> length rs \<Longrightarrow> n \<le> length ds \<Longrightarrow> n \<le> length vs \<Longrightarrow>
   \<exists>a' nv'. gae_loop g tau rs ds vs (rev [0..<n]) (a, nv, acc) =
        Inr (a', nv', map (\<lambda>t. fst (gae_state g tau rs ds vs (a, nv) n t)) [0..<n] @ acc)"
proof (induction n arbitrary: a nv acc)
  case 0
  then show ?case by simp
next
  case (Suc n)
  define a2 where "a2 = a * tau * g * (1 - ds ! n) + (rs ! n + (1 - ds ! n) * g * nv - vs ! n)"
  from Suc.prems have n: "n \<le> length rs" "n \<le> length ds" "n \<le> length vs"
    and lt: "n < length rs" "n < length ds" "n < length vs"
    by simp_all
  from Suc.IH [OF n, of a2 "vs ! n" "a2 # acc"] obtain a' nv' where
    IH: "gae_loop g tau rs ds vs (rev [0..<n]) (a2, vs ! n, a2 # acc) =
         Inr (a', nv', map (\<lambda>t. fst (gae_state g tau rs ds vs (a2, vs ! n) n t)) [0..<n]
                        @ a2 # acc)" by blast
  have step: "gae_loop g tau rs ds vs (rev [0..<Suc n]) (a, nv, acc) =
              gae_loop g tau rs ds vs (rev [0..<n]) (a2, vs ! n, a2 # acc)"
    using lt by (simp add: getitem_def a2_def Let_def)
  have last: "fst (gae_state g tau rs ds vs (a, nv) (Suc n) n) = a2"
    by (simp add: gae_state_step gae_state_at_end a2_def)
  have pre: "map (\<lambda>t. fst (gae_state g tau rs ds vs (a, nv) (Suc n) t)) [0..<n] =
             map (\<lambda>t. fst (gae_state g tau rs ds vs (a2, vs ! n) n t)) [0..<n]"
    by (simp add: gae_state_shift a2_def)
  show ?case
    unfolding step IH using last pre by simp
qed

lemma gae_eq:
  assumes "length values = length rewards" "length rewards = length dones"
  shows "generalized_advantage_estimate gamma tau rewards dones values next_value =
         Inr (map (\<lambda>t. fst (gae_state gamma tau rewards dones values (0, next_value)
                               (length rewards) t))
                [0..<length rewards])"
proof -
  from gae_loop_rev_upt [of "length rewards" rewards dones "values" gamma tau 0 next_value "[]"]
    assms
  obtain a' nv' where
    "gae_loop gamma tau rewards dones values (rev [0..<length rewards]) (0, next_value, []) =
     Inr (a', nv', map (\<lambda>t. fst (gae_state gamma tau rewards dones values (0, next_value)
                               (length rewards) t))
                [0..<length rewards])"
    by auto
  then show ?thesis using assms by (simp add: generalized_advantage_estimate_def)
qed



text \<open>
  Claim C2.  For rewards, dones and values of one length \<open>T\<close>,
  \<open>generalized_advantage_estimate\<close> returns \<open>T\<close> advantages, and the one at \<open>t\<close> is the
  advantage of the backward recurrence that starts from advantage 0 and the caller's
  \<open>next_value\<close> and, from \<open>t = T - 1\<close> down to 0, sets
  \<open>td_error = rewards[t] + (1 - dones[t]) * gamma * next_value - values[t]\<close>,
  \<open>advantage = advantage * tau * gamma * (1 - dones[t]) + td_error\<close> and
  \<open>next_value = values[t]\<close>.
\<close>

theorem generalized_advantage_estimate_is_backward_recurrence:
  assumes "length values = length rewards" "length rewards = length dones"
  shows "\<exists>advantages.
           generalized_advantage_estimate gamma tau rewards dones values next_value
             = Inr advantages
           \<and> length advantages = length rewards
           \<and> (\<forall>t < length rewards.
                 advantages ! t =
                   fst (gae_state gamma tau rewards dones values (0, next_value)
                          (length rewards) t))"
  using gae_eq [OF assms, of gamma tau next_value] by simp

theorem generalized_advantage_estimate_is_backward_recurrence_witness:
  "length [1, 2 :: real] = length [3, 4 :: real]
   \<and> length [3, 4 :: real] = length [0, 1 :: real]
   \<and> (\<exists>advantages.
           generalized_advantage_estimate (1 / 2) (1 / 4) [3, 4] [0, 1] [1, 2] 7
             = Inr advantages
           \<and> length advantages = length [3, 4 :: real]
           \<and> (\<forall>t < length [3, 4 :: real].
                 advantages ! t =
                   fst (gae_state (1 / 2) (1 / 4) [3, 4] [0, 1] [1, 2] (0, 7)
                          (length [3, 4 :: real]) t)))"
  using generalized_advantage_estimate_is_backward_recurrence
          [of "[1, 2]" "[3, 4]" "[0, 1]" "1 / 2" "1 / 4" 7]
  by simp



text \<open>
  Claim C7.  \<open>generalized_advantage_estimate\<close> fails exactly when the three lengths
  disagree: then the \<open>assert\<close> raises (the specification's ShapeMismatch is the code's
  \<open>AssertionError\<close> with the message of \<open>gae_msg\<close>) before anything is computed, and
  when they agree it returns one advantage per reward and raises nothing.
\<close>

theorem generalized_advantage_estimate_length_check:
  "(generalized_advantage_estimate gamma tau rewards dones values next_value
      = Inl (AssertionError gae_msg))
     = (\<not> (length values = length rewards \<and> length rewards = length dones))
   \<and> (\<exists>advantages.
         generalized_advantage_estimate gamma tau rewards dones values next_value
           = Inr advantages
         \<and> length advantages = length rewards)
     = (length values = length rewards \<and> length rewards = length dones)"
  using gae_eq [of "values" rewards dones gamma tau next_value]
  by (auto simp add: generalized_advantage_estimate_def)

theorem generalized_advantage_estimate_length_check_witness:
  "generalized_advantage_estimate (1 / 2) (1 / 4) [3, 4] [0, 1] [1, 2, 3] 7
     = Inl (AssertionError gae_msg)
   \<and> (\<exists>advantages.
         generalized_advantage_estimate (1 / 2) (1 / 4) [3, 4] [0, 1] [1, 2] 7 = Inr advantages
         \<and> length advantages = length [3, 4 :: real])"
  using generalized_advantage_estimate_length_check
          [of "1 / 2" "1 / 4" "[3, 4]" "[0, 1]" "[1, 2, 3]" 7]
        generalized_advantage_estimate_length_check
          [of "1 / 2" "1 / 4" "[3, 4]" "[0, 1]" "[1, 2]" 7]
  by simp

section \<open>Theorems about the episode statistics of \<open>Logger\<close>\<close>





















end
